theory Spec2Isabelle
  imports Main "HOL-Library.Char_ord" "HOL-Library.List_Lexorder"
    "HOL-Library.Product_Lexorder" "HOL-Library.Option_ord" "HOL-Library.AList"
    "HOL-Library.Multiset"
begin

section \<open>Python values\<close>

text \<open>
  The program is \<^verbatim>\<open>salt/files/duo/duo_openvpn_vpn_001.py\<close>, a Python 2 script. The
  values it handles are byte strings, \<^verbatim>\<open>None\<close> and whatever \<^verbatim>\<open>json.loads\<close>
  returns, so one datatype of JSON values stands for all of them: \<open>JNull\<close> is
  \<^verbatim>\<open>None\<close>, \<open>JStr\<close> is a \<^verbatim>\<open>str\<close> or \<^verbatim>\<open>unicode\<close> string (Python 2
  compares the two by content), \<open>JObj\<close> is a \<^verbatim>\<open>dict\<close> with string keys, given by its
  items. Numbers are integers; floating-point numbers are left out.
\<close>

datatype json =
    JNull
  | JBool bool
  | JNum int
  | JStr string
  | JArr "json list"
  | JObj "(string \<times> json) list"

text \<open>Python's truth value of an object, as \<^verbatim>\<open>not x\<close> and \<^verbatim>\<open>x or y\<close> read it.\<close>

fun truthy :: "json \<Rightarrow> bool" where
  "truthy JNull = False"
| "truthy (JBool b) = b"
| "truthy (JNum n) = (n \<noteq> 0)"
| "truthy (JStr s) = (s \<noteq> [])"
| "truthy (JArr xs) = (xs \<noteq> [])"
| "truthy (JObj kvs) = (kvs \<noteq> [])"

text \<open>\<^verbatim>\<open>not x\<close>.\<close>

definition py_not :: "json \<Rightarrow> bool" where
  "py_not x = (\<not> truthy x)"

declare py_not_def [simp]

text \<open>
  What the attribute \<^verbatim>\<open>data\<close> of a raised error holds: \<^verbatim>\<open>raise_error\<close> is a closure
  over the variable \<^verbatim>\<open>data\<close> of \<^verbatim>\<open>parse_json_response\<close>, which is the raw body
  until \<^verbatim>\<open>data = json.loads(data)\<close> rebinds it to the decoded value.
\<close>

datatype body = Raw string | Decoded json

text \<open>
  The message of the \<^verbatim>\<open>RuntimeError\<close>, kept as its format and arguments:
  \<^verbatim>\<open>'Received %s %s (%s)'\<close>, \<^verbatim>\<open>'Received %s %s'\<close>,
  \<^verbatim>\<open>'Received error response: %s'\<close> and \<^verbatim>\<open>'Received bad response: %s'\<close>.
\<close>

datatype message =
    Received_detail int json json
  | Received int json
  | Error_response json
  | Bad_response body

text \<open>Failures of the transport (\<^verbatim>\<open>httplib\<close>, \<^verbatim>\<open>socket\<close>, \<^verbatim>\<open>ssl\<close>).\<close>

datatype transport_error = ConnectError | TLSError | Timeout

text \<open>
  The exceptions the program can raise. \<open>RuntimeError msg status reason data\<close> is the
  error of \<^verbatim>\<open>raise_error\<close> with its three attributes. All of them are subclasses of
  \<^verbatim>\<open>Exception\<close>, so \<^verbatim>\<open>except Exception\<close> catches every one.
\<close>

datatype exn =
    RuntimeError message int string body
  | TransportError transport_error
  | NotImplementedError int
  | TypeError
  | ValueError
  | KeyError string
  | AttributeError
  | IOError
  | UnboundLocalError string

section \<open>What lies outside the repository\<close>

record http_response =
  status :: int
  reason :: string

text \<open>
  A request as \<^verbatim>\<open>api_call\<close> hands it to \<^verbatim>\<open>_make_request\<close>: the HTTP verb, the path,
  the normalized parameters (sent as the form-encoded body or as the query string) and the
  \<^verbatim>\<open>Authorization\<close> header.
\<close>

record http_request =
  req_verb :: string
  req_path :: string
  req_params :: "(string \<times> string option list) list"
  req_authorization :: string

record client =
  ikey :: "string option"
  skey :: "string option"
  host :: "string option"
  user_agent :: "string option"
  proxy_host :: "string option"
  proxy_port :: "string option"
  proxy_type :: "string option"

text \<open>
  The library functions and the network are parameters of the model, gathered in one
  record: \<^verbatim>\<open>urllib.quote(s, '~')\<close>, \<^verbatim>\<open>hmac.new(key, msg, hashlib.sha1).hexdigest()\<close>,
  \<^verbatim>\<open>base64.b64encode\<close>, \<^verbatim>\<open>email.utils.formatdate\<close> (of the clock),
  \<^verbatim>\<open>json.loads\<close> (\<open>None\<close> when it raises \<^verbatim>\<open>ValueError\<close>), \<^verbatim>\<open>json.dumps\<close> of a
  dict, \<^verbatim>\<open>hashlib.sha512\<close>'s hex digest, and the exchange that \<^verbatim>\<open>_make_request\<close>
  performs over the connection of \<^verbatim>\<open>_connect\<close>. A dict is a map, so \<open>json_dumps\<close> is a
  function of the dict's contents: the order in which CPython iterates a dict is not
  modelled.
\<close>

record world =
  urllib_quote :: "string \<Rightarrow> string"
  hmac_sha1_hexdigest :: "string \<Rightarrow> string \<Rightarrow> string"
  b64encode :: "string \<Rightarrow> string"
  formatdate :: "int \<Rightarrow> string"
  json_loads :: "string \<Rightarrow> json option"
  json_dumps :: "(json \<rightharpoonup> json) \<Rightarrow> exn + string"
  sha512_hexdigest :: "string \<Rightarrow> string"
  http_exchange :: "client \<Rightarrow> http_request \<Rightarrow> transport_error + (http_response \<times> string)"

section \<open>Response parser\<close>

text \<open>\<^verbatim>\<open>raise_error(msg)\<close>: the error with the response's status and reason and the
  current value of \<^verbatim>\<open>data\<close>.\<close>

definition raise_error :: "http_response \<Rightarrow> body \<Rightarrow> message \<Rightarrow> exn" where
  "raise_error response data msg = RuntimeError msg (status response) (reason response) data"

text \<open>
  \<^verbatim>\<open>Client.parse_json_response(response, data)\<close>. Subscripting a decoded value that is
  not a dict raises \<^verbatim>\<open>TypeError\<close>, a missing key \<^verbatim>\<open>KeyError\<close>, a body that does not
  decode \<^verbatim>\<open>ValueError\<close>: the \<^verbatim>\<open>except\<close> clauses catch these three, and only these, so
  the \<^verbatim>\<open>RuntimeError\<close> raised inside a \<^verbatim>\<open>try\<close> block leaves the function.
\<close>

definition parse_json_response :: "world \<Rightarrow> http_response \<Rightarrow> string \<Rightarrow> exn + json" where
  "parse_json_response W response data =
     (if status response \<noteq> 200 then
        (case json_loads W data of
           None \<Rightarrow>
             Inl (raise_error response (Raw data)
                    (Received (status response) (JStr (reason response))))
         | Some d \<Rightarrow>
             (let fallthrough =
                    Inl (raise_error response (Decoded d)
                           (Received (status response) (JStr (reason response))))
              in case d of
                   JObj kvs \<Rightarrow>
                     (case map_of kvs ''stat'' of
                        None \<Rightarrow> fallthrough
                      | Some stat \<Rightarrow>
                          if stat = JStr ''FAIL'' then
                            (case map_of kvs ''message_detail'' of
                               Some detail \<Rightarrow>
                                 (case map_of kvs ''message'' of
                                    None \<Rightarrow> fallthrough
                                  | Some m \<Rightarrow>
                                      Inl (raise_error response (Decoded d)
                                             (Received_detail (status response) m detail)))
                             | None \<Rightarrow>
                                 (case map_of kvs ''message'' of
                                    None \<Rightarrow> fallthrough
                                  | Some m \<Rightarrow>
                                      Inl (raise_error response (Decoded d)
                                             (Received (status response) m))))
                          else fallthrough)
                 | _ \<Rightarrow> fallthrough))
      else
        (case json_loads W data of
           None \<Rightarrow> Inl (raise_error response (Raw data) (Bad_response (Raw data)))
         | Some d \<Rightarrow>
             (let bad = Inl (raise_error response (Decoded d) (Bad_response (Decoded d)))
              in case d of
                   JObj kvs \<Rightarrow>
                     (case map_of kvs ''stat'' of
                        None \<Rightarrow> bad
                      | Some stat \<Rightarrow>
                          if stat \<noteq> JStr ''OK'' then
                            Inl (raise_error response (Decoded d) (Error_response d))
                          else
                            (case map_of kvs ''response'' of
                               None \<Rightarrow> bad
                             | Some r \<Rightarrow> Inr r))
                 | _ \<Rightarrow> bad)))"

text \<open>Whether an exception is the parser's error for this response (a ProtocolError).\<close>

fun is_protocol_error :: "http_response \<Rightarrow> exn \<Rightarrow> bool" where
  "is_protocol_error response (RuntimeError msg st rs d) =
     (st = status response \<and> rs = reason response)"
| "is_protocol_error response _ = False"

section \<open>Canonicalizer and signer\<close>

text \<open>
  Python 2 compares byte strings byte by byte, lists and tuples lexicographically, and
  puts \<^verbatim>\<open>None\<close> below every string: the orders of \<open>char\<close>, \<open>list\<close>, \<open>prod\<close> and
  \<open>option\<close> imported above. \<open>sort\<close> on such a linear order is the one sorted
  arrangement that \<^verbatim>\<open>sorted\<close> returns.
\<close>

definition upper_char :: "char \<Rightarrow> char" where
  "upper_char c =
     (if CHR ''a'' \<le> c \<and> c \<le> CHR ''z'' then char_of (of_char c - (32::nat)) else c)"

definition lower_char :: "char \<Rightarrow> char" where
  "lower_char c =
     (if CHR ''A'' \<le> c \<and> c \<le> CHR ''Z'' then char_of (of_char c + (32::nat)) else c)"

definition upper :: "string \<Rightarrow> string" where
  "upper s = map upper_char s"

definition lower :: "string \<Rightarrow> string" where
  "lower s = map lower_char s"

text \<open>\<^verbatim>\<open>sep.join(xs)\<close>.\<close>

fun str_join :: "string \<Rightarrow> string list \<Rightarrow> string" where
  "str_join sep [] = []"
| "str_join sep [x] = x"
| "str_join sep (x # y # ys) = x @ sep @ str_join sep (y # ys)"

text \<open>\<^verbatim>\<open>'%s' % x\<close> for a string or \<^verbatim>\<open>None\<close>.\<close>

fun py_str :: "string option \<Rightarrow> string" where
  "py_str None = ''None''"
| "py_str (Some s) = s"

text \<open>
  The generator \<^verbatim>\<open>urllib.quote(val, '~') for val in vals\<close>, consumed by \<^verbatim>\<open>sorted\<close>:
  \<^verbatim>\<open>urllib.quote(None)\<close> raises \<^verbatim>\<open>TypeError\<close>.
\<close>

fun quote_vals :: "world \<Rightarrow> string option list \<Rightarrow> exn + string list" where
  "quote_vals W [] = Inr []"
| "quote_vals W (None # vals) = Inl TypeError"
| "quote_vals W (Some val # vals) =
     (case quote_vals W vals of
        Inl e \<Rightarrow> Inl e
      | Inr qs \<Rightarrow> Inr (urllib_quote W val # qs))"

text \<open>The two nested loops of \<^verbatim>\<open>canon_params\<close> over the sorted pairs, filling
  \<^verbatim>\<open>args\<close>.\<close>

fun canon_args :: "world \<Rightarrow> (string \<times> string option list) list \<Rightarrow> exn + string list" where
  "canon_args W [] = Inr []"
| "canon_args W ((key, vals) # rest) =
     (case quote_vals W vals of
        Inl e \<Rightarrow> Inl e
      | Inr qs \<Rightarrow>
          (case canon_args W rest of
             Inl e \<Rightarrow> Inl e
           | Inr args \<Rightarrow> Inr (map (\<lambda>val. key @ ''='' @ val) (sort qs) @ args)))"

text \<open>\<^verbatim>\<open>canon_params(params)\<close>; \<open>params\<close> is \<^verbatim>\<open>params.items()\<close>, in the order the dict
  yields its items.\<close>

definition canon_params :: "world \<Rightarrow> (string \<times> string option list) list \<Rightarrow> exn + string" where
  "canon_params W params =
     (case canon_args W (sort (map (\<lambda>(key, vals). (urllib_quote W key, vals)) params)) of
        Inl e \<Rightarrow> Inl e
      | Inr args \<Rightarrow> Inr (str_join ''&'' args))"

text \<open>
  \<^verbatim>\<open>canonicalize(method, host, uri, params, date, sig_version)\<close>. The host is \<^verbatim>\<open>None\<close>
  when the configuration lacks it, and \<^verbatim>\<open>None.lower()\<close> raises \<^verbatim>\<open>AttributeError\<close>
  before \<^verbatim>\<open>canon_params\<close> is evaluated.
\<close>

definition canonicalize ::
  "world \<Rightarrow> string \<Rightarrow> string option \<Rightarrow> string \<Rightarrow> (string \<times> string option list) list \<Rightarrow>
     string \<Rightarrow> int \<Rightarrow> exn + string" where
  "canonicalize W verb hst uri params date sig_version =
     (if sig_version \<noteq> 1 \<and> sig_version \<noteq> 2 then Inl (NotImplementedError sig_version)
      else
        (case hst of
           None \<Rightarrow> Inl AttributeError
         | Some h \<Rightarrow>
             (case canon_params W params of
                Inl e \<Rightarrow> Inl e
              | Inr cp \<Rightarrow>
                  Inr (str_join [CHR 0x0A]
                         ((if sig_version = 1 then [] else [date]) @
                          [upper verb, lower h, uri, cp])))))"

text \<open>
  \<^verbatim>\<open>sign(ikey, skey, method, host, uri, date, sig_version, params)\<close>. A missing secret
  key is \<^verbatim>\<open>None\<close>, on which \<^verbatim>\<open>hmac.new\<close> raises \<^verbatim>\<open>TypeError\<close>; a missing
  integration key is formatted as \<^verbatim>\<open>'None'\<close>.
\<close>

definition sign ::
  "world \<Rightarrow> string option \<Rightarrow> string option \<Rightarrow> string \<Rightarrow> string option \<Rightarrow> string \<Rightarrow> string \<Rightarrow>
     int \<Rightarrow> (string \<times> string option list) list \<Rightarrow> exn + string" where
  "sign W ik sk verb hst uri date sig_version params =
     (case canonicalize W verb hst uri params date sig_version of
        Inl e \<Rightarrow> Inl e
      | Inr canonical \<Rightarrow>
          (case sk of
             None \<Rightarrow> Inl TypeError
           | Some k \<Rightarrow>
               Inr (''Basic '' @
                    b64encode W (py_str ik @ '':'' @ hmac_sha1_hexdigest W k canonical))))"

text \<open>
  \<^verbatim>\<open>normalize_params\<close>: \<^verbatim>\<open>to_list\<close> wraps \<^verbatim>\<open>None\<close> and a string in a list and returns
  any other value as it is; the list comprehension then iterates it, which raises
  \<^verbatim>\<open>TypeError\<close> on a number or a boolean and yields the keys of a dict. Request
  parameters are strings (or \<^verbatim>\<open>None\<close>): a list holding anything else is outside the
  model, is never passed by this program, and is given \<^verbatim>\<open>TypeError\<close> here.
\<close>

fun encode_elems :: "json list \<Rightarrow> exn + string option list" where
  "encode_elems [] = Inr []"
| "encode_elems (v # vs) =
     (case encode_elems vs of
        Inl e \<Rightarrow> Inl e
      | Inr rest \<Rightarrow>
          (case v of
             JNull \<Rightarrow> Inr (None # rest)
           | JStr s \<Rightarrow> Inr (Some s # rest)
           | _ \<Rightarrow> Inl TypeError))"

fun to_list :: "json \<Rightarrow> exn + string option list" where
  "to_list JNull = Inr [None]"
| "to_list (JStr s) = Inr [Some s]"
| "to_list (JBool b) = Inl TypeError"
| "to_list (JNum n) = Inl TypeError"
| "to_list (JArr vs) = encode_elems vs"
| "to_list (JObj kvs) = Inr (map (\<lambda>kv. Some (fst kv)) kvs)"

fun normalize_params :: "(string \<times> json) list \<Rightarrow> exn + (string \<times> string option list) list" where
  "normalize_params [] = Inr []"
| "normalize_params ((key, v) # rest) =
     (case to_list v of
        Inl e \<Rightarrow> Inl e
      | Inr vals \<Rightarrow>
          (case normalize_params rest of
             Inl e \<Rightarrow> Inl e
           | Inr ps \<Rightarrow> Inr ((key, vals) # ps)))"

section \<open>Client\<close>

text \<open>The run's state: the files written through \<^verbatim>\<open>control\<close>, the listing of
  \<^verbatim>\<open>CACHE_DIR\<close> (file name and \<^verbatim>\<open>st_mtime\<close>), the requests sent so far, and the
  clock \<^verbatim>\<open>time.time()\<close> in seconds.\<close>

record state =
  files :: "string \<rightharpoonup> string"
  cache :: "(string \<times> int) list"
  calls :: "http_request list"
  clock :: int

text \<open>\<^verbatim>\<open>Client.__init__\<close>, which ends with \<^verbatim>\<open>set_proxy(host=None, proxy_type=None)\<close>, and
  \<^verbatim>\<open>set_proxy(host, port)\<close> with its default \<^verbatim>\<open>proxy_type='CONNECT'\<close>.\<close>

definition Client :: "string option \<Rightarrow> string option \<Rightarrow> string option \<Rightarrow> string option \<Rightarrow> client" where
  "Client ik sk hst ua =
     \<lparr>ikey = ik, skey = sk, host = hst, user_agent = ua,
      proxy_host = None, proxy_port = None, proxy_type = None\<rparr>"

definition set_proxy :: "client \<Rightarrow> string option \<Rightarrow> string option \<Rightarrow> client" where
  "set_proxy c hst port = c\<lparr>proxy_host := hst, proxy_port := port, proxy_type := Some ''CONNECT''\<rparr>"

text \<open>
  \<^verbatim>\<open>Client.api_call\<close> with the class's \<^verbatim>\<open>sig_version = 1\<close>: the parameters are
  normalized and the request is signed, either of which may raise before anything is sent;
  then \<^verbatim>\<open>_make_request\<close> sends it, which the state records.
\<close>

definition api_call ::
  "world \<Rightarrow> client \<Rightarrow> string \<Rightarrow> string \<Rightarrow> (string \<times> json) list \<Rightarrow> state \<Rightarrow>
     (exn + (http_response \<times> string)) \<times> state" where
  "api_call W c verb path params st =
     (case normalize_params params of
        Inl e \<Rightarrow> (Inl e, st)
      | Inr ps \<Rightarrow>
          (case sign W (ikey c) (skey c) verb (host c) path (formatdate W (clock st)) 1 ps of
             Inl e \<Rightarrow> (Inl e, st)
           | Inr a \<Rightarrow>
               (let rq = \<lparr>req_verb = verb, req_path = path, req_params = ps,
                          req_authorization = a\<rparr>;
                    st' = st\<lparr>calls := calls st @ [rq]\<rparr>
                in case http_exchange W c rq of
                     Inl t \<Rightarrow> (Inl (TransportError t), st')
                   | Inr rd \<Rightarrow> (Inr rd, st'))))"

definition json_api_call ::
  "world \<Rightarrow> client \<Rightarrow> string \<Rightarrow> string \<Rightarrow> (string \<times> json) list \<Rightarrow> state \<Rightarrow>
     (exn + json) \<times> state" where
  "json_api_call W c verb path params st =
     (case api_call W c verb path params st of
        (Inl e, st') \<Rightarrow> (Inl e, st')
      | (Inr (response, data), st') \<Rightarrow> (parse_json_response W response data, st'))"

section \<open>Replay cache\<close>

text \<open>
  \<^verbatim>\<open>get_hash_for_connection\<close>. The username and the source address are strings read
  from the environment; the password is a string, \<^verbatim>\<open>None\<close>, or the default factor
  that the service returned, which may be any JSON value. The dict literal
  \<^verbatim>\<open>{username: username, password: password, ipaddr: ipaddr}\<close> takes the three values
  themselves as its keys, each mapped to itself; a list or a dict as a key raises
  \<^verbatim>\<open>TypeError\<close> (unhashable).
\<close>

fun hashable :: "json \<Rightarrow> bool" where
  "hashable (JArr xs) = False"
| "hashable (JObj kvs) = False"
| "hashable v = True"

definition connection_descriptor :: "string \<Rightarrow> json \<Rightarrow> string \<Rightarrow> (json \<rightharpoonup> json)" where
  "connection_descriptor username password ipaddr =
     [JStr username \<mapsto> JStr username, password \<mapsto> password, JStr ipaddr \<mapsto> JStr ipaddr]"

definition get_hash_for_connection :: "world \<Rightarrow> string \<Rightarrow> json \<Rightarrow> string \<Rightarrow> exn + string" where
  "get_hash_for_connection W username password ipaddr =
     (if hashable password then
        (case json_dumps W (connection_descriptor username password ipaddr) of
           Inl e \<Rightarrow> Inl e
         | Inr descriptor \<Rightarrow> Inr (sha512_hexdigest W descriptor))
      else Inl TypeError)"

text \<open>
  \<^verbatim>\<open>clean_cache\<close>: the loop over \<^verbatim>\<open>os.listdir(CACHE_DIR)\<close> removes every file whose
  \<^verbatim>\<open>st_mtime\<close> is below \<^verbatim>\<open>now - 12 * 60 * 60\<close>. The directory exists and holds
  regular files under distinct names.
\<close>

definition clean_step :: "int \<Rightarrow> string \<Rightarrow> (string \<times> int) list \<Rightarrow> (string \<times> int) list" where
  "clean_step now f dir =
     (case map_of dir f of
        None \<Rightarrow> dir
      | Some mtime \<Rightarrow> if mtime < now - 12 * 60 * 60 then AList.delete f dir else dir)"

definition clean_cache :: "state \<Rightarrow> state" where
  "clean_cache st =
     st\<lparr>cache := fold (clean_step (clock st)) (map fst (cache st)) (cache st)\<rparr>"

text \<open>\<^verbatim>\<open>success(control)\<close> and \<^verbatim>\<open>failure(control)\<close> open the control file for writing,
  which truncates it, write one character and close it. Neither ends the run.\<close>

definition success :: "string \<Rightarrow> state \<Rightarrow> state" where
  "success control st = st\<lparr>files := (files st)(control \<mapsto> ''1'')\<rparr>"

definition failure :: "string \<Rightarrow> state \<Rightarrow> state" where
  "failure control st = st\<lparr>files := (files st)(control \<mapsto> ''0'')\<rparr>"

text \<open>\<^verbatim>\<open>cache_auth\<close> creates or truncates the marker file, whose \<^verbatim>\<open>st_mtime\<close> becomes
  the current time.\<close>

definition cache_auth ::
  "world \<Rightarrow> string \<Rightarrow> json \<Rightarrow> string \<Rightarrow> state \<Rightarrow> exn option \<times> state" where
  "cache_auth W username password ipaddr st =
     (case get_hash_for_connection W username password ipaddr of
        Inl e \<Rightarrow> (Some e, st)
      | Inr connection_hash \<Rightarrow>
          (None, st\<lparr>cache := AList.update connection_hash (clock st) (cache st)\<rparr>))"

definition check_cache ::
  "world \<Rightarrow> string \<Rightarrow> string \<Rightarrow> json \<Rightarrow> string \<Rightarrow> state \<Rightarrow> exn option \<times> state" where
  "check_cache W control username password ipaddr st =
     (let st1 = clean_cache st
      in case get_hash_for_connection W username password ipaddr of
           Inl e \<Rightarrow> (Some e, st1)
         | Inr connection_hash \<Rightarrow>
             if map_of (cache st1) connection_hash \<noteq> None then (None, success control st1)
             else (None, st1))"

section \<open>Authentication workflow\<close>

text \<open>\<^verbatim>\<open>response.get(key)\<close>: \<^verbatim>\<open>None\<close> for a missing key, \<^verbatim>\<open>AttributeError\<close> when
  the response is not a dict; and \<^verbatim>\<open>response[key]\<close>.\<close>

fun py_get :: "json \<Rightarrow> string \<Rightarrow> exn + json" where
  "py_get (JObj kvs) key = Inr (case map_of kvs key of None \<Rightarrow> JNull | Some v \<Rightarrow> v)"
| "py_get v key = Inl AttributeError"

fun py_getitem :: "json \<Rightarrow> string \<Rightarrow> exn + json" where
  "py_getitem (JObj kvs) key = (case map_of kvs key of None \<Rightarrow> Inl (KeyError key) | Some v \<Rightarrow> Inr v)"
| "py_getitem v key = Inl TypeError"

abbreviation API_RESULT_AUTH :: json where "API_RESULT_AUTH \<equiv> JStr ''auth''"
abbreviation API_RESULT_ALLOW :: json where "API_RESULT_ALLOW \<equiv> JStr ''allow''"
abbreviation API_RESULT_DENY :: json where "API_RESULT_DENY \<equiv> JStr ''deny''"
abbreviation API_RESULT_ENROLL :: json where "API_RESULT_ENROLL \<equiv> JStr ''enroll''"

text \<open>\<^verbatim>\<open>preauth(client, control, username)\<close> returns the default factor, or \<^verbatim>\<open>None\<close>
  (falling off the end) when the result is not \<^verbatim>\<open>'auth'\<close>.\<close>

definition preauth ::
  "world \<Rightarrow> client \<Rightarrow> string \<Rightarrow> string \<Rightarrow> state \<Rightarrow> (exn + json) \<times> state" where
  "preauth W c control username st =
     (case json_api_call W c ''POST'' ''/rest/v1/preauth'' [(''user'', JStr username)] st of
        (Inl e, st1) \<Rightarrow> (Inl e, st1)
      | (Inr response, st1) \<Rightarrow>
          (case py_get response ''result'' of
             Inl e \<Rightarrow> (Inl e, st1)
           | Inr result \<Rightarrow>
               if result = API_RESULT_AUTH then
                 (case py_getitem response ''factors'' of
                    Inl e \<Rightarrow> (Inl e, st1)
                  | Inr factors \<Rightarrow>
                      (case py_get factors ''default'' of
                         Inl e \<Rightarrow> (Inl e, st1)
                       | Inr d \<Rightarrow> (Inr d, st1)))
               else
                 (case py_get response ''status'' of
                    Inl e \<Rightarrow> (Inl e, st1)
                  | Inr stat \<Rightarrow>
                      (let st2 = (if py_not stat then failure control st1 else st1)
                       in if result = API_RESULT_ENROLL then (Inr JNull, failure control st2)
                          else if result = API_RESULT_DENY then (Inr JNull, failure control st2)
                          else if result = API_RESULT_ALLOW then (Inr JNull, success control st2)
                          else (Inr JNull, failure control st2)))))"

text \<open>\<^verbatim>\<open>auth(client, control, username, password, ipaddr)\<close>.\<close>

definition auth ::
  "world \<Rightarrow> client \<Rightarrow> string \<Rightarrow> string \<Rightarrow> json \<Rightarrow> string \<Rightarrow> state \<Rightarrow> exn option \<times> state" where
  "auth W c control username password ipaddr st =
     (case json_api_call W c ''POST'' ''/rest/v1/auth''
             [(''user'', JStr username), (''factor'', JStr ''auto''), (''auto'', password),
              (''ipaddr'', JStr ipaddr)] st of
        (Inl e, st1) \<Rightarrow> (Some e, st1)
      | (Inr response, st1) \<Rightarrow>
          (case py_get response ''result'' of
             Inl e \<Rightarrow> (Some e, st1)
           | Inr result \<Rightarrow>
               (case py_get response ''status'' of
                  Inl e \<Rightarrow> (Some e, st1)
                | Inr stat \<Rightarrow>
                    (let st2 = (if py_not result \<or> py_not stat then failure control st1
                                else st1)
                     in if result = API_RESULT_ALLOW then
                          (case cache_auth W username password ipaddr st2 of
                             (Some e, st3) \<Rightarrow> (Some e, st3)
                           | (None, st3) \<Rightarrow> (None, success control st3))
                        else if result = API_RESULT_DENY then (None, failure control st2)
                        else (None, failure control st2)))))"

text \<open>\<^verbatim>\<open>get_config(k)\<close>, the function local to \<^verbatim>\<open>main\<close>.\<close>

definition get_config ::
  "(string \<rightharpoonup> string) \<Rightarrow> string \<Rightarrow> string \<Rightarrow> state \<Rightarrow> string option \<times> state" where
  "get_config environ control k st =
     (case environ k of
        None \<Rightarrow> (None, failure control st)
      | Some v \<Rightarrow> if v \<noteq> [] then (Some v, st) else (None, failure control st))"

text \<open>\<^verbatim>\<open>environ.get(k)\<close> as a Python value.\<close>

definition env_get :: "(string \<rightharpoonup> string) \<Rightarrow> string \<Rightarrow> json" where
  "env_get environ k = (case environ k of None \<Rightarrow> JNull | Some v \<Rightarrow> JStr v)"

text \<open>The client that \<^verbatim>\<open>main\<close> builds (lines 414 to 424), with the writes of
  \<^verbatim>\<open>get_config\<close> for each missing parameter.\<close>

definition main_client :: "(string \<rightharpoonup> string) \<Rightarrow> string \<Rightarrow> state \<Rightarrow> client \<times> state" where
  "main_client environ control st =
     (let (ik, st1) = get_config environ control ''ikey'' st;
          (sk, st2) = get_config environ control ''skey'' st1;
          (hst, st3) = get_config environ control ''host'' st2;
          c = Client ik sk hst (Some ''duo_openvpn/2.1'')
      in if truthy (env_get environ ''proxy_host'') then
           (let (ph, st4) = get_config environ control ''proxy_host'' st3;
                (pp, st5) = get_config environ control ''proxy_port'' st4
            in (set_proxy c ph pp, st5))
         else (c, st3))"

text \<open>
  The first \<^verbatim>\<open>try\<close> of \<^verbatim>\<open>main\<close> (lines 426 to 430): the variable \<^verbatim>\<open>default_factor\<close>
  is bound only when \<^verbatim>\<open>preauth\<close> returns; \<open>None\<close> stands for the unbound variable.
\<close>

definition main_preauth ::
  "world \<Rightarrow> client \<Rightarrow> string \<Rightarrow> string \<Rightarrow> state \<Rightarrow> json option \<times> state" where
  "main_preauth W c control username st =
     (case preauth W c control username st of
        (Inl e, st1) \<Rightarrow> (None, failure control st1)
      | (Inr d, st1) \<Rightarrow> (Some d, st1))"

text \<open>
  Lines 432 to 437: \<^verbatim>\<open>password or default_factor\<close> reads \<^verbatim>\<open>default_factor\<close> only
  when the password is empty or absent, and reading the unbound variable raises
  \<^verbatim>\<open>UnboundLocalError\<close>. The result is the password to go on with.
\<close>

definition main_password ::
  "string \<Rightarrow> json \<Rightarrow> json option \<Rightarrow> state \<Rightarrow> (exn + json) \<times> state" where
  "main_password control password default_factor st =
     (if truthy password then (Inr password, st)
      else
        (case default_factor of
           None \<Rightarrow> (Inl (UnboundLocalError ''default_factor''), st)
         | Some d \<Rightarrow>
             if py_not d then (Inr password, failure control st)
             else (Inr d, st)))"

text \<open>The second \<^verbatim>\<open>try\<close> (lines 439 to 444) and the last statement of \<^verbatim>\<open>main\<close>
  (line 446).\<close>

definition main_auth ::
  "world \<Rightarrow> client \<Rightarrow> string \<Rightarrow> string \<Rightarrow> json \<Rightarrow> string \<Rightarrow> state \<Rightarrow> state" where
  "main_auth W c control username password ipaddr st =
     (let st3 =
        (case check_cache W control username password ipaddr st of
           (Some e, st1) \<Rightarrow> failure control st1
         | (None, st1) \<Rightarrow>
             (case auth W c control username password ipaddr st1 of
                (Some e, st2) \<Rightarrow> failure control st2
              | (None, st2) \<Rightarrow> st2))
      in failure control st3)"

text \<open>
  \<^verbatim>\<open>main(Client, environ)\<close> with the class \<^verbatim>\<open>Client\<close> of this file. The result is the
  exception that leaves \<^verbatim>\<open>main\<close>, if any, and the final state. Before the first
  \<^verbatim>\<open>return\<close>, \<^verbatim>\<open>failure(control)\<close> opens \<^verbatim>\<open>None\<close> (\<^verbatim>\<open>TypeError\<close>) or the empty path
  (\<^verbatim>\<open>IOError\<close>) when the control variable is missing or empty; everywhere else the
  control path is a non-empty string and the file is taken to be writable. \<^verbatim>\<open>log\<close> only
  prints and is left out.
\<close>

definition main :: "world \<Rightarrow> (string \<rightharpoonup> string) \<Rightarrow> state \<Rightarrow> exn option \<times> state" where
  "main W environ st =
     (case environ ''control'' of
        None \<Rightarrow> (Some TypeError, st)
      | Some control \<Rightarrow>
          if control = [] then (Some IOError, st)
          else
            (case environ ''username'' of
               None \<Rightarrow> (None, failure control st)
             | Some username \<Rightarrow>
                 if username = [] then (None, failure control st)
                 else
                   (let password = env_get environ ''password'';
                        ipaddr = (case environ ''ipaddr'' of None \<Rightarrow> ''0.0.0.0'' | Some a \<Rightarrow> a);
                        (c, st1) = main_client environ control st;
                        (default_factor, st2) = main_preauth W c control username st1
                    in case main_password control password default_factor st2 of
                         (Inl e, st3) \<Rightarrow> (Some e, st3)
                       | (Inr password', st3) \<Rightarrow>
                           (None, main_auth W c control username password' ipaddr st3))))"

section \<open>The success envelope, in the spec's words\<close>

text \<open>
  The response parser's contract as the spec words it: the body decodes as JSON with a
  top-level \<^verbatim>\<open>stat\<close> field equal to \<^verbatim>\<open>"OK"\<close> and a \<^verbatim>\<open>response\<close> field, whose value
  is the payload. \<open>success_envelope d\<close> is that payload of a decoded body \<open>d\<close>, if it
  has one.
\<close>

definition success_envelope :: "json \<Rightarrow> json option" where
  "success_envelope d =
     (case d of
        JObj kvs \<Rightarrow> (if map_of kvs ''stat'' = Some (JStr ''OK'') then map_of kvs ''response'' else None)
      | _ \<Rightarrow> None)"

section \<open>Concrete inputs\<close>

text \<open>
  A world to run the program in. \<open>percent_quote\<close> is \<^verbatim>\<open>urllib.quote(s, '~')\<close>: every
  byte but letters, digits and \<^verbatim>\<open>_.-~\<close> becomes \<^verbatim>\<open>%XX\<close>. \<open>example_loads\<close> decodes
  the five bodies below as \<^verbatim>\<open>json.loads\<close> does and rejects every other body. The
  digests and \<^verbatim>\<open>base64\<close> are stand-ins that only tag their input, and \<open>example_dumps\<close>
  writes the dict's entries under the four strings the examples use, in a fixed order. The
  network answers 200 with one body on the pre-authentication path and with another on
  every other path.
\<close>

definition hex_digit :: "nat \<Rightarrow> char" where
  "hex_digit n = ''0123456789ABCDEF'' ! (n mod 16)"

definition percent_quote :: "string \<Rightarrow> string" where
  "percent_quote s =
     concat (map (\<lambda>c. if c \<in> set ''ABCDEFGHIJKLMNOPQRSTUVWXYZabcdefghijklmnopqrstuvwxyz0123456789_.-~''
                       then [c]
                       else [CHR ''%'', hex_digit (of_char c div 16), hex_digit (of_char c mod 16)]) s)"

definition body_preauth_auth :: string where
  \<open>body_preauth_auth =
     ''{"stat": "OK", "response": {"result": "auth", "factors": {"default": "push"}}}''\<close>

definition body_preauth_enroll :: string where
  \<open>body_preauth_enroll =
     ''{"stat": "OK", "response": {"result": "enroll", "status": "not enrolled"}}''\<close>

definition body_allow :: string where
  \<open>body_allow = ''{"stat": "OK", "response": {"result": "allow", "status": "ok"}}''\<close>

definition body_allow_no_status :: string where
  \<open>body_allow_no_status = ''{"stat": "OK", "response": {"result": "allow"}}''\<close>

definition body_fail :: string where
  \<open>body_fail = ''{"stat": "FAIL", "message": "Invalid signature"}''\<close>

definition example_loads :: "string \<Rightarrow> json option" where
  "example_loads s =
     (if s = body_preauth_auth then
        Some (JObj [(''stat'', JStr ''OK''),
                    (''response'', JObj [(''result'', JStr ''auth''),
                                         (''factors'', JObj [(''default'', JStr ''push'')])])])
      else if s = body_preauth_enroll then
        Some (JObj [(''stat'', JStr ''OK''),
                    (''response'', JObj [(''result'', JStr ''enroll''),
                                         (''status'', JStr ''not enrolled'')])])
      else if s = body_allow then
        Some (JObj [(''stat'', JStr ''OK''),
                    (''response'', JObj [(''result'', JStr ''allow''), (''status'', JStr ''ok'')])])
      else if s = body_allow_no_status then
        Some (JObj [(''stat'', JStr ''OK''), (''response'', JObj [(''result'', JStr ''allow'')])])
      else if s = body_fail then
        Some (JObj [(''stat'', JStr ''FAIL''), (''message'', JStr ''Invalid signature'')])
      else None)"

definition example_dumps :: "(json \<rightharpoonup> json) \<Rightarrow> exn + string" where
  "example_dumps d =
     Inr (concat (map (\<lambda>k. case d (JStr k) of
                              Some (JStr v) \<Rightarrow> k @ '':'' @ v @ '';''
                            | _ \<Rightarrow> [])
                      [''10.0.0.5'', ''alice'', ''push'', ''s3cr3t'']))"

definition example_world :: "string \<Rightarrow> string \<Rightarrow> world" where
  "example_world preauth_body auth_body =
     \<lparr>urllib_quote = percent_quote,
      hmac_sha1_hexdigest = (\<lambda>k m. ''hmac-sha1('' @ k @ '', '' @ m @ '')''),
      b64encode = (\<lambda>s. ''base64('' @ s @ '')''),
      formatdate = (\<lambda>t. ''Thu, 01 Jan 1970 00:00:00 -0000''),
      json_loads = example_loads,
      json_dumps = example_dumps,
      sha512_hexdigest = (\<lambda>s. ''sha512('' @ s @ '')''),
      http_exchange = (\<lambda>c rq.
         if req_path rq = ''/rest/v1/preauth''
         then Inr (\<lparr>status = 200, reason = ''OK''\<rparr>, preauth_body)
         else Inr (\<lparr>status = 200, reason = ''OK''\<rparr>, auth_body))\<rparr>"

text \<open>The identity of the spec's first scenario, with a complete configuration, and a
  state with an empty cache directory.\<close>

definition example_environ :: "string \<rightharpoonup> string" where
  "example_environ =
     [''control'' \<mapsto> ''/tmp/ctl'', ''username'' \<mapsto> ''alice'', ''password'' \<mapsto> ''s3cr3t'',
      ''ipaddr'' \<mapsto> ''10.0.0.5'', ''ikey'' \<mapsto> ''DIXXXXXXXXXXXXXXXXXX'',
      ''skey'' \<mapsto> ''secretkey'', ''host'' \<mapsto> ''api-test.duosecurity.com'']"

definition initial_state :: state where
  "initial_state = \<lparr>files = Map.empty, cache = [], calls = [], clock = 1000000\<rparr>"

text \<open>The same state after an earlier run stored the identity's marker, one hour before.\<close>

definition cached_state :: state where
  "cached_state =
     initial_state\<lparr>cache := [(''sha512(10.0.0.5:10.0.0.5;alice:alice;s3cr3t:s3cr3t;)'', 996400)]\<rparr>"

definition example_client :: client where
  "example_client =
     Client (Some ''DIXXXXXXXXXXXXXXXXXX'') (Some ''secretkey'') (Some ''api-test.duosecurity.com'')
       (Some ''duo_openvpn/2.1'')"


lemmas example_defs =
  example_world_def example_loads_def example_dumps_def example_environ_def initial_state_def
  cached_state_def example_client_def body_allow_def body_preauth_auth_def
  body_preauth_enroll_def body_allow_no_status_def body_fail_def percent_quote_def hex_digit_def

lemmas model_defs =
  main_def main_auth_def main_password_def main_preauth_def main_client_def env_get_def
  get_config_def auth_def preauth_def check_cache_def cache_auth_def success_def failure_def
  clean_cache_def clean_step_def get_hash_for_connection_def connection_descriptor_def
  json_api_call_def api_call_def parse_json_response_def raise_error_def sign_def
  canonicalize_def canon_params_def Client_def set_proxy_def upper_def lower_def
  upper_char_def lower_char_def

section \<open>Properties of the response parser\<close>

text \<open>
  Claim C6. For every response whose HTTP status is not 200 the parser raises its
  \<^verbatim>\<open>RuntimeError\<close> with the response's status and reason (the ProtocolError), whatever
  the body decodes to, a success envelope included; it never returns a payload.
\<close>

theorem non_200_raises_protocol_error:
  assumes "status response \<noteq> 200"
  shows "(\<exists>e. parse_json_response W response data = Inl e \<and> is_protocol_error response e) \<and>
         (\<forall>v. parse_json_response W response data \<noteq> Inr v)"
  using assms
  by (auto simp: parse_json_response_def raise_error_def Let_def
      split: option.splits json.splits)

text \<open>At status 500 with the success envelope of \<open>body_allow\<close> as the body.\<close>

theorem non_200_raises_protocol_error_witness:
  "status \<lparr>status = 500, reason = ''Internal Server Error''\<rparr> \<noteq> 200 \<and>
   Option.bind (json_loads (example_world [] []) body_allow) success_envelope =
     Some (JObj [(''result'', JStr ''allow''), (''status'', JStr ''ok'')]) \<and>
   (\<exists>e. parse_json_response (example_world [] [])
           \<lparr>status = 500, reason = ''Internal Server Error''\<rparr> body_allow = Inl e \<and>
        is_protocol_error \<lparr>status = 500, reason = ''Internal Server Error''\<rparr> e) \<and>
   (\<forall>v. parse_json_response (example_world [] [])
           \<lparr>status = 500, reason = ''Internal Server Error''\<rparr> body_allow \<noteq> Inr v)"
  using non_200_raises_protocol_error
    [of "\<lparr>status = 500, reason = ''Internal Server Error''\<rparr>" "example_world [] []" body_allow]
  by (simp add: example_defs success_envelope_def)

text \<open>
  Claim C7 says that every error at status 200 carries the raw body. At status 200 with the
  body \<open>body_fail\<close>, which decodes but has \<^verbatim>\<open>stat\<close> \<^verbatim>\<open>"FAIL"\<close>, the error's
  \<^verbatim>\<open>data\<close> is the decoded dict and not the body received.
\<close>

theorem status_200_error_data_counterexample:
  "parse_json_response (example_world [] []) \<lparr>status = 200, reason = ''OK''\<rparr> body_fail =
     Inl (RuntimeError
            (Error_response
               (JObj [(''stat'', JStr ''FAIL''), (''message'', JStr ''Invalid signature'')]))
            200 ''OK''
            (Decoded (JObj [(''stat'', JStr ''FAIL''), (''message'', JStr ''Invalid signature'')]))) \<and>
   Decoded (JObj [(''stat'', JStr ''FAIL''), (''message'', JStr ''Invalid signature'')]) \<noteq>
     Raw body_fail"
  by (simp add: example_defs parse_json_response_def raise_error_def)

text \<open>
  Claim C7, amended. For every response with HTTP status 200, the parser returns the value
  of the \<^verbatim>\<open>response\<close> field exactly when the body decodes to a success envelope. A body
  that does not decode raises the error with status, reason and the raw body (no decode
  exception leaves the parser); a body that decodes to anything else raises the error with
  status, reason and the decoded value in place of the raw body.
\<close>

theorem status_200_parse:
  assumes "status response = 200"
  shows "(parse_json_response W response data = Inr v \<longleftrightarrow>
            (\<exists>d. json_loads W data = Some d \<and> success_envelope d = Some v)) \<and>
         (case json_loads W data of
            None \<Rightarrow>
              parse_json_response W response data =
                Inl (RuntimeError (Bad_response (Raw data)) 200 (reason response) (Raw data))
          | Some d \<Rightarrow>
              (case success_envelope d of
                 Some r \<Rightarrow> parse_json_response W response data = Inr r
               | None \<Rightarrow>
                   (\<exists>msg. parse_json_response W response data =
                      Inl (RuntimeError msg 200 (reason response) (Decoded d)))))"
  using assms
  by (auto simp: parse_json_response_def raise_error_def success_envelope_def Let_def
      split: option.splits json.splits)

text \<open>At status 200 with a success envelope, a failure envelope and a body that is not
  JSON.\<close>

theorem status_200_parse_witness:
  "status \<lparr>status = 200, reason = ''OK''\<rparr> = 200 \<and>
   parse_json_response (example_world [] []) \<lparr>status = 200, reason = ''OK''\<rparr> body_allow =
     Inr (JObj [(''result'', JStr ''allow''), (''status'', JStr ''ok'')]) \<and>
   (\<exists>msg. parse_json_response (example_world [] []) \<lparr>status = 200, reason = ''OK''\<rparr> body_fail =
      Inl (RuntimeError msg 200 ''OK''
             (Decoded (JObj [(''stat'', JStr ''FAIL''), (''message'', JStr ''Invalid signature'')])))) \<and>
   parse_json_response (example_world [] []) \<lparr>status = 200, reason = ''OK''\<rparr> ''not json'' =
     Inl (RuntimeError (Bad_response (Raw ''not json'')) 200 ''OK'' (Raw ''not json''))"
  using status_200_parse [of "\<lparr>status = 200, reason = ''OK''\<rparr>" "example_world [] []" body_allow
      "JObj [(''result'', JStr ''allow''), (''status'', JStr ''ok'')]"]
    status_200_parse [of "\<lparr>status = 200, reason = ''OK''\<rparr>" "example_world [] []" body_fail JNull]
    status_200_parse [of "\<lparr>status = 200, reason = ''OK''\<rparr>" "example_world [] []" "''not json''" JNull]
  by (simp add: example_defs success_envelope_def)

section \<open>Properties of the canonicalizer and signer\<close>

text \<open>Sorting the items of a dict does not depend on the order in which the dict yields
  them.\<close>

lemma sort_items_permuted:
  fixes ps qs :: "('a \<times> 'b) list" and f :: "('a \<times> 'b) \<Rightarrow> ('c :: linorder)"
  assumes "distinct (map fst ps)" "distinct (map fst qs)" "set ps = set qs"
  shows "sort (map f ps) = sort (map f qs)"
proof -
  have "distinct ps" "distinct qs"
    using assms(1,2) by (simp_all add: distinct_map)
  with assms(3) have "mset ps = mset qs"
    by (simp add: set_eq_iff_mset_eq_distinct)
  then have "mset (map f ps) = mset (map f qs)"
    by simp
  then have "mset (sort (map f qs)) = mset (map f ps)"
    by simp
  then show ?thesis
    by (rule properties_for_sort) simp
qed

text \<open>
  Claim C8. Two parameter mappings (items with distinct keys) that hold the same
  (key, value-sequence) pairs in different orders have the same canonical parameter string,
  the same canonical request and the same authorization header, the other inputs being
  equal; where one raises, the other raises the same exception.
\<close>

theorem canonicalization_order_independent:
  assumes "distinct (map fst ps)" and "distinct (map fst qs)" and "set ps = set qs"
  shows "canon_params W ps = canon_params W qs \<and>
         canonicalize W verb hst uri ps date sig_version =
           canonicalize W verb hst uri qs date sig_version \<and>
         sign W ik sk verb hst uri date sig_version ps =
           sign W ik sk verb hst uri date sig_version qs"
proof -
  have eq: "canon_params W ps = canon_params W qs"
    unfolding canon_params_def
    using sort_items_permuted [OF assms, of "\<lambda>(key, vals). (urllib_quote W key, vals)"]
    by simp
  show ?thesis
    unfolding sign_def canonicalize_def eq by simp
qed

text \<open>The parameters of an authentication call in two orders.\<close>

theorem canonicalization_order_independent_witness:
  "distinct (map fst [(''user'', [Some ''alice'']), (''factor'', [Some ''auto'']), (''auto'', [Some ''s3 cr3t''])]) \<and>
   distinct (map fst [(''auto'', [Some ''s3 cr3t'']), (''user'', [Some ''alice'']), (''factor'', [Some ''auto''])]) \<and>
   set [(''user'', [Some ''alice'']), (''factor'', [Some ''auto'']), (''auto'', [Some ''s3 cr3t''])] =
     set [(''auto'', [Some ''s3 cr3t'']), (''user'', [Some ''alice'']), (''factor'', [Some ''auto''])] \<and>
   canon_params (example_world [] [])
       [(''user'', [Some ''alice'']), (''factor'', [Some ''auto'']), (''auto'', [Some ''s3 cr3t''])] =
     Inr ''auto=s3%20cr3t&factor=auto&user=alice'' \<and>
   canon_params (example_world [] [])
       [(''auto'', [Some ''s3 cr3t'']), (''user'', [Some ''alice'']), (''factor'', [Some ''auto''])] =
     Inr ''auto=s3%20cr3t&factor=auto&user=alice'' \<and>
   sign (example_world [] []) (Some ''DIXXXXXXXXXXXXXXXXXX'') (Some ''secretkey'') ''POST''
       (Some ''api-test.duosecurity.com'') ''/rest/v1/auth'' [] 1
       [(''user'', [Some ''alice'']), (''factor'', [Some ''auto'']), (''auto'', [Some ''s3 cr3t''])] =
     sign (example_world [] []) (Some ''DIXXXXXXXXXXXXXXXXXX'') (Some ''secretkey'') ''POST''
       (Some ''api-test.duosecurity.com'') ''/rest/v1/auth'' [] 1
       [(''auto'', [Some ''s3 cr3t'']), (''user'', [Some ''alice'']), (''factor'', [Some ''auto''])]"
proof -
  have d1: "distinct (map fst [(''user'', [Some ''alice'']), (''factor'', [Some ''auto'']), (''auto'', [Some ''s3 cr3t''])])"
    by simp
  have d2: "distinct (map fst [(''auto'', [Some ''s3 cr3t'']), (''user'', [Some ''alice'']), (''factor'', [Some ''auto''])])"
    by simp
  have s: "set [(''user'', [Some ''alice'']), (''factor'', [Some ''auto'']), (''auto'', [Some ''s3 cr3t''])] =
     set [(''auto'', [Some ''s3 cr3t'']), (''user'', [Some ''alice'']), (''factor'', [Some ''auto''])]"
    by auto
  have c: "canon_params (example_world [] [])
       [(''user'', [Some ''alice'']), (''factor'', [Some ''auto'']), (''auto'', [Some ''s3 cr3t''])] =
     Inr ''auto=s3%20cr3t&factor=auto&user=alice''"
    by (simp add: canon_params_def example_defs)
  from canonicalization_order_independent [OF d1 d2 s, of "example_world [] []" "''POST''"
      "Some ''api-test.duosecurity.com''" "''/rest/v1/auth''" "[]" 1
      "Some ''DIXXXXXXXXXXXXXXXXXX''" "Some ''secretkey''"] d1 d2 s c
  show ?thesis by simp
qed

section \<open>Properties of the cache key\<close>

text \<open>The descriptor maps each of the three values to itself and nothing else, so it
  depends only on the set of the three values.\<close>

lemma connection_descriptor_apply:
  "connection_descriptor u p i k = (if k = JStr u \<or> k = p \<or> k = JStr i then Some k else None)"
  by (simp add: connection_descriptor_def)


text \<open>
  Claim C9 says that distinct identity tuples have distinct keys up to digest collision.
  The tuples (alice, s3cr3t, 10.0.0.5) and (s3cr3t, alice, 10.0.0.5) are distinct, and so
  are (alice, alice, 10.0.0.5) and (alice, 10.0.0.5, 10.0.0.5); each pair has one and the
  same digest input, hence one key, whatever the digest.
\<close>

theorem cache_key_collision:
  "get_hash_for_connection W ''alice'' (JStr ''s3cr3t'') ''10.0.0.5'' =
     get_hash_for_connection W ''s3cr3t'' (JStr ''alice'') ''10.0.0.5'' \<and>
   get_hash_for_connection W ''alice'' (JStr ''alice'') ''10.0.0.5'' =
     get_hash_for_connection W ''alice'' (JStr ''10.0.0.5'') ''10.0.0.5'' \<and>
   (''alice'', JStr ''s3cr3t'', ''10.0.0.5'') \<noteq> (''s3cr3t'', JStr ''alice'', ''10.0.0.5'') \<and>
   (''alice'', JStr ''alice'', ''10.0.0.5'') \<noteq> (''alice'', JStr ''10.0.0.5'', ''10.0.0.5'')"
proof -
  have eq:
    "connection_descriptor ''s3cr3t'' (JStr ''alice'') ''10.0.0.5'' =
       connection_descriptor ''alice'' (JStr ''s3cr3t'') ''10.0.0.5''"
    "connection_descriptor ''alice'' (JStr ''10.0.0.5'') ''10.0.0.5'' =
       connection_descriptor ''alice'' (JStr ''alice'') ''10.0.0.5''"
    by (auto simp: connection_descriptor_apply fun_eq_iff)
  show ?thesis
    unfolding get_hash_for_connection_def eq by simp
qed

section \<open>What each step of the workflow leaves unchanged\<close>

text \<open>Writing the control file touches neither the requests sent nor the cache; the
  sweep, the cache check and the marker's creation send nothing.\<close>

lemma failure_simps [simp]:
  "files (failure control st) control = Some ''0''"
  "calls (failure control st) = calls st"
  "cache (failure control st) = cache st"
  "clock (failure control st) = clock st"
  by (simp_all add: failure_def)

lemma success_simps [simp]:
  "files (success control st) control = Some ''1''"
  "calls (success control st) = calls st"
  "cache (success control st) = cache st"
  "clock (success control st) = clock st"
  by (simp_all add: success_def)

lemma clean_cache_frame [simp]:
  "files (clean_cache st) = files st"
  "calls (clean_cache st) = calls st"
  "clock (clean_cache st) = clock st"
  by (simp_all add: clean_cache_def)




text \<open>The requests sent only grow, and only \<open>api_call\<close> adds one.\<close>

lemma cache_auth_frame:
  assumes "cache_auth W u p i st = (e, st')"
  shows "calls st' = calls st" and "files st' = files st"
  using assms by (auto simp: cache_auth_def split: sum.splits)

lemma check_cache_calls:
  assumes "check_cache W control u p i st = (e, st')"
  shows "calls st' = calls st"
  using assms by (auto simp: check_cache_def Let_def split: sum.splits if_splits)

lemma api_call_calls:
  assumes "api_call W c verb path params st = (r, st')"
  shows "\<exists>rest. calls st' = calls st @ rest"
  using assms by (auto simp: api_call_def Let_def split: sum.splits)

lemma json_api_call_calls:
  assumes "json_api_call W c verb path params st = (r, st')"
  shows "\<exists>rest. calls st' = calls st @ rest"
proof -
  obtain r0 st0 where a: "api_call W c verb path params st = (r0, st0)"
    by (cases "api_call W c verb path params st")
  with assms have "st' = st0"
    by (auto simp: json_api_call_def split: sum.splits prod.splits)
  with api_call_calls [OF a] show ?thesis by simp
qed

lemma auth_calls:
  assumes "auth W c control u p i st = (e, st')"
  shows "\<exists>rest. calls st' = calls st @ rest"
proof -
  obtain r st1 where j: "json_api_call W c ''POST'' ''/rest/v1/auth''
             [(''user'', JStr u), (''factor'', JStr ''auto''), (''auto'', p), (''ipaddr'', JStr i)] st =
        (r, st1)"
    by (cases "json_api_call W c ''POST'' ''/rest/v1/auth''
             [(''user'', JStr u), (''factor'', JStr ''auto''), (''auto'', p), (''ipaddr'', JStr i)] st")
  from json_api_call_calls [OF j] obtain rest where r: "calls st1 = calls st @ rest" ..
  have "calls st' = calls st1"
    using assms j
    by (auto simp: auth_def Let_def dest: cache_auth_frame(1)
        split: sum.splits prod.splits option.splits if_splits)
  with r show ?thesis by simp
qed

lemma main_auth_calls:
  "\<exists>rest. calls (main_auth W c control u p i st) = calls st @ rest"
proof -
  obtain e st1 where cc: "check_cache W control u p i st = (e, st1)"
    by (cases "check_cache W control u p i st")
  note c1 = check_cache_calls [OF cc]
  obtain e2 st2 where a: "auth W c control u p i st1 = (e2, st2)"
    by (cases "auth W c control u p i st1")
  from auth_calls [OF a] obtain rest where "calls st2 = calls st1 @ rest" ..
  with c1 cc a show ?thesis
    by (auto simp: main_auth_def Let_def split: option.splits)
qed


lemma main_password_frame:
  assumes "main_password control password df st = (r, st')"
  shows "calls st' = calls st"
  using assms by (auto simp: main_password_def split: option.splits if_splits)







lemma get_config_present:
  assumes "environ k = Some v" and "v \<noteq> []"
  shows "get_config environ control k st = (Some v, st)"
  using assms by (simp add: get_config_def)







section \<open>Properties of the workflow\<close>







text \<open>
  Claim C1 says that an authentication response with result \<^verbatim>\<open>allow\<close> makes the
  workflow's final decision Allow. In the first scenario \<^verbatim>\<open>auth\<close> creates the marker and
  writes the success code, and \<^verbatim>\<open>main\<close> then runs on to line 446 and overwrites it
  with the failure code.
\<close>

theorem allow_is_overwritten:
  "fst (auth (example_world body_preauth_auth body_allow) example_client ''/tmp/ctl''
          ''alice'' (JStr ''s3cr3t'') ''10.0.0.5'' initial_state) = None \<and>
   files (snd (auth (example_world body_preauth_auth body_allow) example_client ''/tmp/ctl''
          ''alice'' (JStr ''s3cr3t'') ''10.0.0.5'' initial_state)) ''/tmp/ctl'' =
     Some ''1'' \<and>
   fst (main (example_world body_preauth_auth body_allow) example_environ initial_state) = None \<and>
   files (snd (main (example_world body_preauth_auth body_allow) example_environ initial_state))
     ''/tmp/ctl'' = Some ''0'' \<and>
   cache (snd (main (example_world body_preauth_auth body_allow) example_environ initial_state)) =
     [(''sha512(10.0.0.5:10.0.0.5;alice:alice;s3cr3t:s3cr3t;)'', 1000000)] \<and>
   map req_path (calls (snd (main (example_world body_preauth_auth body_allow) example_environ
       initial_state))) = [''/rest/v1/preauth'', ''/rest/v1/auth'']"
  by (simp add: example_defs model_defs Let_def)

text \<open>
  Claim C3 says that after a pre-authentication result \<^verbatim>\<open>enroll\<close> the authentication
  endpoint is never called. \<^verbatim>\<open>preauth\<close> writes the failure code and returns, and
  \<^verbatim>\<open>main\<close> goes on to send the authentication request.
\<close>

theorem enroll_still_calls_auth:
  "fst (preauth (example_world body_preauth_enroll body_allow) example_client ''/tmp/ctl''
          ''alice'' initial_state) = Inr JNull \<and>
   files (snd (preauth (example_world body_preauth_enroll body_allow) example_client ''/tmp/ctl''
          ''alice'' initial_state)) ''/tmp/ctl'' = Some ''0'' \<and>
   map req_path (calls (snd (main (example_world body_preauth_enroll body_allow) example_environ
       initial_state))) = [''/rest/v1/preauth'', ''/rest/v1/auth''] \<and>
   files (snd (main (example_world body_preauth_enroll body_allow) example_environ initial_state))
     ''/tmp/ctl'' = Some ''0''"
  by (simp add: example_defs model_defs Let_def)

text \<open>
  Claim C4 says that an authentication response without a status resolves to Deny and
  creates no cache entry. For the response \<^verbatim>\<open>{"result": "allow"}\<close>, \<^verbatim>\<open>auth\<close> writes
  the failure code, goes on, creates the marker and writes the success code.
\<close>

theorem allow_without_status_is_cached:
  "fst (json_api_call (example_world body_preauth_auth body_allow_no_status) example_client
          ''POST'' ''/rest/v1/auth''
          [(''user'', JStr ''alice''), (''factor'', JStr ''auto''), (''auto'', JStr ''s3cr3t''),
           (''ipaddr'', JStr ''10.0.0.5'')] initial_state) =
     Inr (JObj [(''result'', JStr ''allow'')]) \<and>
   fst (auth (example_world body_preauth_auth body_allow_no_status) example_client ''/tmp/ctl''
          ''alice'' (JStr ''s3cr3t'') ''10.0.0.5'' initial_state) = None \<and>
   files (snd (auth (example_world body_preauth_auth body_allow_no_status) example_client
          ''/tmp/ctl'' ''alice'' (JStr ''s3cr3t'') ''10.0.0.5'' initial_state))
     ''/tmp/ctl'' = Some ''1'' \<and>
   cache (snd (auth (example_world body_preauth_auth body_allow_no_status) example_client
          ''/tmp/ctl'' ''alice'' (JStr ''s3cr3t'') ''10.0.0.5'' initial_state)) =
     [(''sha512(10.0.0.5:10.0.0.5;alice:alice;s3cr3t:s3cr3t;)'', 1000000)]"
  by (simp add: example_defs model_defs Let_def)

end
